theory Spec2Isabelle
  imports Complex_Main "HOL-Library.Multiset"
begin

section \<open>Python values shared by the whole module\<close>

text \<open>
  The exceptions that the statements of \<^verbatim>\<open>wgan.py\<close> and the library calls it makes can
  raise. \<open>FormatError\<close> stands for the exception \<^verbatim>\<open>str.format\<close> raises on a replacement
  field it cannot serve; \<open>FrameworkError\<close> for any failure inside a tensor computation of
  the framework.
\<close>

datatype py_error =
    ValueError
  | ZeroDivisionError
  | KeyError
  | IndexError
  | UnboundLocalError
  | AssertionError
  | TypeError
  | AttributeError
  | OSError
  | InvalidArgumentError
  | FormatError
  | FrameworkError

text \<open>A two-dimensional numpy array: its shape and its elements in row-major order.\<close>

record ndarray =
  shape :: "nat \<times> nat"
  elems :: "real list"

text \<open>
  A pandas DataFrame of numbers: the index labels, the number of columns and the rows.
  \<^verbatim>\<open>len(train)\<close> is the number of index labels.
\<close>

record dataframe =
  df_index :: "int list"
  df_columns :: nat
  df_rows :: "real list list"

definition wf_dataframe :: "dataframe \<Rightarrow> bool" where
  "wf_dataframe df \<longleftrightarrow>
     length (df_rows df) = length (df_index df) \<and>
     list_all (\<lambda>r. length r = df_columns df) (df_rows df)"

text \<open>
  \<^verbatim>\<open>xs[start:stop]\<close> on a list: a negative bound counts from the end, every bound is
  clamped into the list, and a stop before the start gives the empty list.
\<close>

definition py_slice :: "'a list \<Rightarrow> int \<Rightarrow> int \<Rightarrow> 'a list" where
  "py_slice xs start stop =
     (let n = int (length xs);
          a = (if start < 0 then max (start + n) 0 else min start n);
          b = (if stop < 0 then max (stop + n) 0 else min stop n)
      in take (nat (b - a)) (drop (nat a) xs))"

text \<open>
  \<^verbatim>\<open>train.loc[labels]\<close> with a list of labels: for each requested label, in order, all
  rows that carry it (one row when the index is unique); KeyError for a label that is
  not in the index. \<^verbatim>\<open>.values\<close> makes the selected rows a matrix.
\<close>

definition loc_label :: "dataframe \<Rightarrow> int \<Rightarrow> real list list" where
  "loc_label df l = map snd (filter (\<lambda>kr. fst kr = l) (zip (df_index df) (df_rows df)))"

fun loc :: "dataframe \<Rightarrow> int list \<Rightarrow> py_error + real list list" where
  "loc df [] = Inr []"
| "loc df (l # ls) =
     (case loc_label df l of
        [] \<Rightarrow> Inl KeyError
      | r # rs \<Rightarrow> (case loc df ls of Inl e \<Rightarrow> Inl e | Inr rest \<Rightarrow> Inr ((r # rs) @ rest)))"

definition df_values :: "dataframe \<Rightarrow> real list list \<Rightarrow> ndarray" where
  "df_values df rs = \<lparr>shape = (length rs, df_columns df), elems = concat rs\<rparr>"

text \<open>
  \<^verbatim>\<open>np.reshape(x, (batch_size, -1))\<close>: the second dimension is inferred from the size of
  \<open>x\<close>. numpy raises ValueError when the known dimension is zero or negative, or does not
  divide the size.
\<close>

definition np_reshape :: "ndarray \<Rightarrow> int \<Rightarrow> py_error + ndarray" where
  "np_reshape x b =
     (let total = fst (shape x) * snd (shape x) in
      if b \<le> 0 then Inl ValueError
      else if total mod nat b \<noteq> 0 then Inl ValueError
      else Inr \<lparr>shape = (nat b, total div nat b), elems = elems x\<rparr>)"

section \<open>The process-wide numpy random generator\<close>

text \<open>
  The generator is a collaborator of the module, so it is a parameter: \<open>seed_state s\<close> is
  the state \<^verbatim>\<open>np.random.seed(s)\<close> installs, and \<open>choice g a\<close> is
  \<^verbatim>\<open>np.random.choice(a, replace=False, size=len(a))\<close> run in state \<open>g\<close>, with the state it
  leaves. \<^verbatim>\<open>np.random.seed\<close> accepts only seeds from 0 to 2**32 - 1 and raises ValueError
  for any other; it overwrites whatever state was there.
\<close>

record 'g np_random =
  seed_state :: "nat \<Rightarrow> 'g"
  choice :: "'g \<Rightarrow> int list \<Rightarrow> int list \<times> 'g"

definition np_random_seed :: "'g np_random \<Rightarrow> int \<Rightarrow> 'g \<Rightarrow> py_error + 'g" where
  "np_random_seed rnd s g =
     (if 0 \<le> s \<and> s < 2 ^ 32 then Inr (seed_state rnd (nat s)) else Inl ValueError)"

text \<open>What numpy promises of a draw without replacement of full size: a permutation.\<close>

definition draws_permutations :: "'g np_random \<Rightarrow> bool" where
  "draws_permutations rnd \<longleftrightarrow> (\<forall>g a. mset (fst (choice rnd g a)) = mset a)"

section \<open>The batch sampler: WGAN.get_data_batch\<close>

text \<open>
  Lines 86 to 91 of \<^verbatim>\<open>get_data_batch\<close> and the slice of line 92: the index labels the
  call selects, with the generator state it leaves.
\<close>

definition train_ix_slice ::
  "'g np_random \<Rightarrow> 'g \<Rightarrow> dataframe \<Rightarrow> int \<Rightarrow> int \<Rightarrow> py_error + (int list \<times> 'g)" where
  "train_ix_slice rnd g train batch_size seed =
     (let n = int (length (df_index train)) in
      if n = 0 then Inl ZeroDivisionError
      else
        let start_i = (batch_size * seed) mod n;
            stop_i = start_i + batch_size;
            shuffle_seed = (batch_size * seed) div n
        in case np_random_seed rnd shuffle_seed g of
             Inl e \<Rightarrow> Inl e
           | Inr g1 \<Rightarrow>
               (case choice rnd g1 (df_index train) of
                  (train_ix, g2) \<Rightarrow> Inr (py_slice (train_ix @ train_ix) start_i stop_i, g2)))"

definition get_data_batch ::
  "'g np_random \<Rightarrow> 'g \<Rightarrow> dataframe \<Rightarrow> int \<Rightarrow> int \<Rightarrow> py_error + (ndarray \<times> 'g)" where
  "get_data_batch rnd g train batch_size seed =
     (case train_ix_slice rnd g train batch_size seed of
        Inl e \<Rightarrow> Inl e
      | Inr (ixs, g2) \<Rightarrow>
          (case loc train ixs of
             Inl e \<Rightarrow> Inl e
           | Inr rs \<Rightarrow>
               (case np_reshape (df_values train rs) batch_size of
                  Inl e \<Rightarrow> Inl e
                | Inr x \<Rightarrow> Inr (x, g2))))"

text \<open>A generator for concrete runs: the state counts the draws, a draw rotates the list.\<close>

definition rot_random :: "nat np_random" where
  "rot_random = \<lparr>seed_state = (\<lambda>s. s), choice = (\<lambda>g a. (rotate (Suc g) a, Suc g))\<rparr>"

definition toy_frame :: dataframe where
  "toy_frame = \<lparr>df_index = [10, 11, 12], df_columns = 2,
                 df_rows = [[1, 2], [3, 4], [5, 6]]\<rparr>"

definition one_row_frame :: dataframe where
  "one_row_frame = \<lparr>df_index = [5], df_columns = 3, df_rows = [[7, 8, 9]]\<rparr>"

section \<open>The Wasserstein loss: WGAN.wasserstein_loss\<close>

text \<open>
  Tensors of rank one are lists of reals. \<^verbatim>\<open>y_true * y_pred\<close> multiplies elementwise;
  operands of unequal length are broadcast when one of them has length one, and the
  framework raises InvalidArgumentError otherwise. \<^verbatim>\<open>K.mean\<close> of an empty tensor is NaN,
  which is not a real number: \<open>None\<close>.
\<close>

definition tensor_mul :: "real list \<Rightarrow> real list \<Rightarrow> py_error + real list" where
  "tensor_mul x y =
     (if length x = length y then Inr (map2 (*) x y)
      else if length x = 1 then Inr (map (\<lambda>v. hd x * v) y)
      else if length y = 1 then Inr (map (\<lambda>v. v * hd y) x)
      else Inl InvalidArgumentError)"

definition K_mean :: "real list \<Rightarrow> real option" where
  "K_mean x = (if x = [] then None else Some (sum_list x / real (length x)))"

definition wasserstein_loss :: "real list \<Rightarrow> real list \<Rightarrow> py_error + real option" where
  "wasserstein_loss y_true y_pred =
     (case tensor_mul y_true y_pred of Inl e \<Rightarrow> Inl e | Inr p \<Rightarrow> Inr (K_mean p))"

section \<open>The weight clipper: ClipConstraint\<close>

text \<open>
  \<^verbatim>\<open>backend.clip(x, min_value, max_value)\<close> of the framework: a maximum below the minimum
  is raised to the minimum, then every element is clamped, first from above and then
  from below.
\<close>

definition backend_clip :: "real list \<Rightarrow> real \<Rightarrow> real \<Rightarrow> real list" where
  "backend_clip x min_value max_value =
     (let max_value = (if max_value < min_value then min_value else max_value)
      in map (\<lambda>v. max min_value (min max_value v)) x)"

record ClipConstraint =
  clip_value :: real

definition ClipConstraint_call :: "ClipConstraint \<Rightarrow> real list \<Rightarrow> real list" where
  "ClipConstraint_call c weights = backend_clip weights (- clip_value c) (clip_value c)"

definition get_config :: "ClipConstraint \<Rightarrow> (string \<times> real) list" where
  "get_config c = [(''clip_value'', clip_value c)]"

section \<open>Layers, models and the framework that builds and trains them\<close>

text \<open>
  A trainable variable is its flattened value together with the constraint attached to
  it when the layer was made. A Dense layer owns a kernel and a bias; the kernel carries
  the layer's \<^verbatim>\<open>kernel_constraint\<close>, and the bias carries none because no call in the
  module passes a \<^verbatim>\<open>bias_constraint\<close>.
\<close>

datatype activation = Relu | Identity

record variable =
  var_value :: "real list"
  var_constraint :: "ClipConstraint option"

datatype layer =
    Dense (units: int) (act: activation) (kernel: variable) (bias: variable)
  | Dropout (rate: real)

record keras_model =
  model_input :: "int \<times> int option"
  layers :: "layer list"

text \<open>
  What the attribute \<^verbatim>\<open>self.generator\<close> can hold: the network \<^verbatim>\<open>define_gan\<close> built (which
  \<^verbatim>\<open>self._model\<close> shares), a bare \<^verbatim>\<open>Generator(batch_size)\<close> instance, or what
  \<^verbatim>\<open>load_weights\<close> returned.
\<close>

datatype pyobj = BuiltGenerator | GeneratorShell int | LoadStatus | NoneValue

text \<open>
  The tensor framework is a collaborator, so it is a parameter. \<open>input_accepts\<close> and
  \<open>dense_accepts\<close> say which \<^verbatim>\<open>Input(shape=(d,), batch_size=b)\<close> and \<^verbatim>\<open>Dense(units)\<close>
  requests it accepts (it raises ValueError for the others); \<open>initializer\<close> gives a new
  kernel its value. The remaining fields are the computations of a training run on the
  framework's own state \<open>'k\<close>: each may fail, and a gradient step returns the metrics
  and, for every layer, the new values the optimizer computed for kernel and bias.
\<close>

record 'k keras =
  input_accepts :: "int \<Rightarrow> int option \<Rightarrow> bool"
  dense_accepts :: "int \<Rightarrow> bool"
  initializer :: "int \<Rightarrow> int \<Rightarrow> real list"
  random_normal :: "'k \<Rightarrow> int \<Rightarrow> int \<Rightarrow> py_error + (ndarray \<times> 'k)"
  model_call :: "keras_model \<Rightarrow> ndarray \<Rightarrow> py_error + ndarray"
  critic_gradient_step ::
    "'k \<Rightarrow> keras_model \<Rightarrow> ndarray \<Rightarrow> ndarray \<Rightarrow>
       py_error + ((real \<times> real) \<times> (nat \<Rightarrow> real list \<times> real list) \<times> 'k)"
  generator_gradient_step ::
    "'k \<Rightarrow> keras_model \<Rightarrow> keras_model \<Rightarrow> ndarray \<Rightarrow> ndarray \<Rightarrow>
       py_error + (real \<times> (nat \<Rightarrow> real list \<times> real list) \<times> 'k)"
  load_weights :: "pyobj \<Rightarrow> string \<Rightarrow> py_error + pyobj"

definition Input :: "'k keras \<Rightarrow> int \<Rightarrow> int option \<Rightarrow> py_error + (int \<times> int option)" where
  "Input fw d b = (if input_accepts fw d b then Inr (d, b) else Inl ValueError)"

text \<open>
  \<^verbatim>\<open>Dense(units, kernel_constraint=c, activation=a)(x)\<close> on a tensor \<open>x\<close> of \<open>in_dim\<close>
  features: the layer with its two new variables.
\<close>

definition Dense_on ::
  "'k keras \<Rightarrow> int \<Rightarrow> ClipConstraint option \<Rightarrow> activation \<Rightarrow> int \<Rightarrow> py_error + layer" where
  "Dense_on fw n kernel_constraint a in_dim =
     (if dense_accepts fw n
      then Inr (Dense n a
                 \<lparr>var_value = initializer fw in_dim n, var_constraint = kernel_constraint\<rparr>
                 \<lparr>var_value = replicate (nat n) 0, var_constraint = None\<rparr>)
      else Inl ValueError)"

text \<open>
  The optimizer step of the framework on one model: every variable is assigned its new
  value and then, when it carries a constraint, replaced by the constraint applied to
  it. This is the hook through which the weight clipper fires.
\<close>

definition assign :: "variable \<Rightarrow> real list \<Rightarrow> variable" where
  "assign v x =
     (case var_constraint v of
        None \<Rightarrow> v\<lparr>var_value := x\<rparr>
      | Some c \<Rightarrow> v\<lparr>var_value := ClipConstraint_call c x\<rparr>)"

fun update_layer :: "real list \<times> real list \<Rightarrow> layer \<Rightarrow> layer" where
  "update_layer (k, b) (Dense n a kv bv) = Dense n a (assign kv k) (assign bv b)"
| "update_layer (k, b) (Dropout r) = Dropout r"

definition apply_update :: "(nat \<Rightarrow> real list \<times> real list) \<Rightarrow> keras_model \<Rightarrow> keras_model" where
  "apply_update new m =
     m\<lparr>layers := map (\<lambda>(i, l). update_layer (new i) l) (enumerate 0 (layers m))\<rparr>"

section \<open>Generator.build_model and Critic.build_model\<close>

definition Generator_build_model ::
  "'k keras \<Rightarrow> int \<Rightarrow> int \<Rightarrow> int \<Rightarrow> int \<Rightarrow> py_error + keras_model" where
  "Generator_build_model fw batch_size input_shape dim' data_dim =
     (case Input fw input_shape (Some batch_size) of Inl e \<Rightarrow> Inl e | Inr input \<Rightarrow>
      case Dense_on fw dim' None Relu input_shape of Inl e \<Rightarrow> Inl e | Inr x1 \<Rightarrow>
      case Dense_on fw (dim' * 2) None Relu dim' of Inl e \<Rightarrow> Inl e | Inr x2 \<Rightarrow>
      case Dense_on fw (dim' * 4) None Relu (dim' * 2) of Inl e \<Rightarrow> Inl e | Inr x3 \<Rightarrow>
      case Dense_on fw data_dim None Identity (dim' * 4) of Inl e \<Rightarrow> Inl e | Inr x4 \<Rightarrow>
      Inr \<lparr>model_input = input, layers = [x1, x2, x3, x4]\<rparr>)"

definition Critic_build_model :: "'k keras \<Rightarrow> int \<Rightarrow> int \<Rightarrow> int \<Rightarrow> py_error + keras_model" where
  "Critic_build_model fw batch_size input_shape dim' =
     (let const = \<lparr>clip_value = 0.01\<rparr> in
      case Input fw input_shape (Some batch_size) of Inl e \<Rightarrow> Inl e | Inr input \<Rightarrow>
      case Dense_on fw (dim' * 4) (Some const) Relu input_shape of Inl e \<Rightarrow> Inl e | Inr x1 \<Rightarrow>
      case Dense_on fw (dim' * 2) (Some const) Relu (dim' * 4) of Inl e \<Rightarrow> Inl e | Inr x2 \<Rightarrow>
      case Dense_on fw dim' (Some const) Relu (dim' * 2) of Inl e \<Rightarrow> Inl e | Inr x3 \<Rightarrow>
      case Dense_on fw 1 None Identity dim' of Inl e \<Rightarrow> Inl e | Inr x4 \<Rightarrow>
      Inr \<lparr>model_input = input,
           layers = [x1, Dropout 0.1, x2, Dropout 0.1, x3, x4]\<rparr>)"

section \<open>The controller: WGAN.__init__ and WGAN.define_gan\<close>

record adam =
  learning_rate :: real
  beta_1 :: real
  beta_2 :: real

text \<open>
  The object \<^verbatim>\<open>self\<close>. \<open>generator_net\<close> is the generator network \<^verbatim>\<open>define_gan\<close> builds;
  \<^verbatim>\<open>self._model\<close> is that network composed with the critic and shares the variables of
  both, so it needs no field of its own.
\<close>

record wgan =
  n_critic :: int
  batch_size :: int
  lr :: real
  noise_dim :: int
  data_dim :: int
  layers_dim :: int
  generator :: pyobj
  generator_net :: keras_model
  critic :: keras_model
  critic_trainable :: bool
  optimizer :: adam
  critic_optimizer :: adam

definition define_gan ::
  "'k keras \<Rightarrow> int \<Rightarrow> real \<Rightarrow> int \<Rightarrow> int \<Rightarrow> int \<Rightarrow> py_error + (keras_model \<times> keras_model)" where
  "define_gan fw bsz lrate ndim ddim ldim =
     (case Generator_build_model fw bsz ndim ldim ddim of
        Inl e \<Rightarrow> Inl e
      | Inr g \<Rightarrow>
     (case Critic_build_model fw bsz ddim ldim of
        Inl e \<Rightarrow> Inl e
      | Inr c \<Rightarrow>
     (case Input fw ndim None of
        Inl e \<Rightarrow> Inl e
      | Inr z \<Rightarrow> Inr (g, c))))"

text \<open>
  \<^verbatim>\<open>model_parameters\<close> is unpacked into exactly five names, so it is a tuple of five:
  batch size, learning rate, noise dimension, data dimension and layer width.
\<close>

definition WGAN_init ::
  "'k keras \<Rightarrow> int \<times> real \<times> int \<times> int \<times> int \<Rightarrow> int \<Rightarrow> py_error + wgan" where
  "WGAN_init fw model_parameters nc =
     (case model_parameters of (bsz, lrate, ndim, ddim, ldim) \<Rightarrow>
      case define_gan fw bsz lrate ndim ddim ldim of
        Inl e \<Rightarrow> Inl e
      | Inr (g, c) \<Rightarrow>
          Inr \<lparr>n_critic = nc, batch_size = bsz, lr = lrate,
               noise_dim = ndim, data_dim = ddim, layers_dim = ldim,
               generator = BuiltGenerator, generator_net = g, critic = c,
               critic_trainable = False,
               optimizer = \<lparr>learning_rate = lrate, beta_1 = 0.5, beta_2 = 0.9\<rparr>,
               critic_optimizer = \<lparr>learning_rate = lrate, beta_1 = 0.5, beta_2 = 0.9\<rparr>\<rparr>)"

section \<open>The state a training run works on\<close>

text \<open>
  Calls worth remembering, in the order they were made: the batch sampler with its
  arguments and its result, and the two kinds of optimization step with the batch and
  the labels they were given.
\<close>

datatype call =
    GetDataBatch int int "py_error + ndarray"
  | CriticTrainOnBatch ndarray ndarray
  | ModelTrainOnBatch ndarray ndarray

text \<open>
  The file system is the history of what was created in it, oldest first: a path exists
  when the history made it, and is a directory when the history made it with mkdir.
\<close>

datatype fs_op = MkDir string | WriteFile string

record ('g, 'k) state =
  self :: wgan
  np_rng :: 'g
  tf_state :: 'k
  fs :: "fs_op list"
  stdout :: "(int \<times> real \<times> real \<times> real) list"
  calls :: "call list"

text \<open>
  A statement runs in a state and either returns a value or raises, leaving a state
  behind in both cases. An exception ends every statement that follows it.
\<close>

definition returns :: "'a \<Rightarrow> 's \<Rightarrow> (py_error + 'a) \<times> 's" where
  "returns a s = (Inr a, s)"

definition raises :: "py_error \<Rightarrow> 's \<Rightarrow> (py_error + 'a) \<times> 's" where
  "raises e s = (Inl e, s)"

definition and_then ::
  "('s \<Rightarrow> (py_error + 'a) \<times> 's) \<Rightarrow> ('a \<Rightarrow> 's \<Rightarrow> (py_error + 'b) \<times> 's) \<Rightarrow>
   's \<Rightarrow> (py_error + 'b) \<times> 's" where
  "and_then m f s = (case m s of (Inl e, s') \<Rightarrow> (Inl e, s') | (Inr a, s') \<Rightarrow> f a s')"

definition lift_result :: "py_error + 'a \<Rightarrow> 's \<Rightarrow> (py_error + 'a) \<times> 's" where
  "lift_result r s = (r, s)"

section \<open>Library calls of a training run\<close>

text \<open>\<^verbatim>\<open>np.ones((rows, cols))\<close>; numpy raises ValueError for a negative dimension.\<close>

definition np_ones :: "int \<Rightarrow> int \<Rightarrow> py_error + ndarray" where
  "np_ones r c =
     (if r < 0 \<or> c < 0 then Inl ValueError
      else Inr \<lparr>shape = (nat r, nat c), elems = replicate (nat r * nat c) 1\<rparr>)"

definition np_negative :: "ndarray \<Rightarrow> ndarray" where
  "np_negative x = x\<lparr>elems := map uminus (elems x)\<rparr>"

definition call_get_data_batch ::
  "'g np_random \<Rightarrow> dataframe \<Rightarrow> int \<Rightarrow> int \<Rightarrow>
   ('g, 'k) state \<Rightarrow> (py_error + ndarray) \<times> ('g, 'k) state" where
  "call_get_data_batch rnd data bsz sd s =
     (case get_data_batch rnd (np_rng s) data bsz sd of
        Inl e \<Rightarrow> (Inl e, s\<lparr>calls := calls s @ [GetDataBatch bsz sd (Inl e)]\<rparr>)
      | Inr (x, g') \<Rightarrow>
          (Inr x, s\<lparr>np_rng := g', calls := calls s @ [GetDataBatch bsz sd (Inr x)]\<rparr>))"

definition tf_random_normal ::
  "'k keras \<Rightarrow> int \<Rightarrow> int \<Rightarrow> ('g, 'k) state \<Rightarrow> (py_error + ndarray) \<times> ('g, 'k) state" where
  "tf_random_normal fw r c s =
     (case random_normal fw (tf_state s) r c of
        Inl e \<Rightarrow> (Inl e, s)
      | Inr (x, k') \<Rightarrow> (Inr x, s\<lparr>tf_state := k'\<rparr>))"

text \<open>
  \<^verbatim>\<open>self.generator(noise)\<close>: only the network \<^verbatim>\<open>define_gan\<close> built can be called with a
  batch; the other values the attribute can hold raise.
\<close>

definition generator_call ::
  "'k keras \<Rightarrow> ndarray \<Rightarrow> ('g, 'k) state \<Rightarrow> (py_error + ndarray) \<times> ('g, 'k) state" where
  "generator_call fw noise s =
     (case generator (self s) of
        BuiltGenerator \<Rightarrow> (model_call fw (generator_net (self s)) noise, s)
      | GeneratorShell b \<Rightarrow> (Inl FrameworkError, s)
      | LoadStatus \<Rightarrow> (Inl TypeError, s)
      | NoneValue \<Rightarrow> (Inl TypeError, s))"

text \<open>
  \<^verbatim>\<open>self.critic.train_on_batch(x, y)\<close>: one optimizer step on the critic's variables, with
  the constraint hook of \<open>apply_update\<close>; it returns loss and accuracy.
\<close>

definition critic_train_on_batch ::
  "'k keras \<Rightarrow> ndarray \<Rightarrow> ndarray \<Rightarrow>
   ('g, 'k) state \<Rightarrow> (py_error + (real \<times> real)) \<times> ('g, 'k) state" where
  "critic_train_on_batch fw x y s =
     (let s1 = s\<lparr>calls := calls s @ [CriticTrainOnBatch x y]\<rparr> in
      case critic_gradient_step fw (tf_state s) (critic (self s)) x y of
        Inl e \<Rightarrow> (Inl e, s1)
      | Inr (metrics, new, k') \<Rightarrow>
          (Inr metrics,
           s1\<lparr>self := (self s)\<lparr>critic := apply_update new (critic (self s))\<rparr>,
               tf_state := k'\<rparr>))"

text \<open>
  \<^verbatim>\<open>self._model.train_on_batch(noise, valid)\<close>: one optimizer step through the frozen
  critic on the variables of the generator network only; it returns the loss.
\<close>

definition model_train_on_batch ::
  "'k keras \<Rightarrow> ndarray \<Rightarrow> ndarray \<Rightarrow>
   ('g, 'k) state \<Rightarrow> (py_error + real) \<times> ('g, 'k) state" where
  "model_train_on_batch fw x y s =
     (let s1 = s\<lparr>calls := calls s @ [ModelTrainOnBatch x y]\<rparr> in
      case generator_gradient_step fw (tf_state s) (generator_net (self s)) (critic (self s)) x y of
        Inl e \<Rightarrow> (Inl e, s1)
      | Inr (loss, new, k') \<Rightarrow>
          (Inr loss,
           s1\<lparr>self := (self s)\<lparr>generator_net := apply_update new (generator_net (self s))\<rparr>,
               tf_state := k'\<rparr>))"

definition os_path_exists :: "string \<Rightarrow> ('g, 'k) state \<Rightarrow> bool" where
  "os_path_exists p s \<longleftrightarrow> MkDir p \<in> set (fs s) \<or> WriteFile p \<in> set (fs s)"

definition os_path_isdir :: "string \<Rightarrow> ('g, 'k) state \<Rightarrow> bool" where
  "os_path_isdir p s \<longleftrightarrow> MkDir p \<in> set (fs s)"

definition os_mkdir :: "string \<Rightarrow> ('g, 'k) state \<Rightarrow> (py_error + unit) \<times> ('g, 'k) state" where
  "os_mkdir p s =
     (if os_path_exists p s then (Inl OSError, s)
      else (Inr (), s\<lparr>fs := fs s @ [MkDir p]\<rparr>))"

text \<open>
  Writing a weight file \<open>name\<close> into the directory \<open>dir\<close>: OSError when \<open>dir\<close> is not a
  directory.
\<close>

definition write_weights ::
  "string \<Rightarrow> string \<Rightarrow> ('g, 'k) state \<Rightarrow> (py_error + unit) \<times> ('g, 'k) state" where
  "write_weights dir name s =
     (if os_path_isdir dir s then (Inr (), s\<lparr>fs := fs s @ [WriteFile name]\<rparr>)
      else (Inl OSError, s))"

definition generator_save_weights ::
  "string \<Rightarrow> string \<Rightarrow> ('g, 'k) state \<Rightarrow> (py_error + unit) \<times> ('g, 'k) state" where
  "generator_save_weights dir name s =
     (case generator (self s) of
        BuiltGenerator \<Rightarrow> write_weights dir name s
      | GeneratorShell b \<Rightarrow> (Inl FrameworkError, s)
      | LoadStatus \<Rightarrow> (Inl AttributeError, s)
      | NoneValue \<Rightarrow> (Inl AttributeError, s))"

section \<open>Text: str of an integer and str.format\<close>

definition digit_char :: "nat \<Rightarrow> char" where
  "digit_char n = ''0123456789'' ! n"

fun str_nat :: "nat \<Rightarrow> string" where
  "str_nat n = (if n < 10 then [digit_char n] else str_nat (n div 10) @ [digit_char (n mod 10)])"

definition str_int :: "int \<Rightarrow> string" where
  "str_int i = (if i < 0 then CHR ''-'' # str_nat (nat (- i)) else str_nat (nat i))"

text \<open>
  \<^verbatim>\<open>template.format(*args)\<close> for templates built from text, the escapes \<^verbatim>\<open>{{\<close> and
  \<^verbatim>\<open>}}\<close>, and the automatic field \<^verbatim>\<open>{}\<close>. A field with anything between its braces
  is not expanded: in the one template of this module two automatic fields follow
  it and two arguments are given, so Python raises for every such field (ValueError on
  mixing numbering modes, IndexError on a missing third argument, KeyError on a name).
\<close>

fun py_format :: "string \<Rightarrow> string list \<Rightarrow> py_error + string" where
  "py_format [] args = Inr []"
| "py_format [c] args = (if c = CHR ''{'' \<or> c = CHR ''}'' then Inl ValueError else Inr [c])"
| "py_format (c # d # rest) args =
     (if c = CHR ''{'' then
        (if d = CHR ''{'' then map_sum id ((#) CHR ''{'') (py_format rest args)
         else if d = CHR ''}'' then
           (case args of
              [] \<Rightarrow> Inl IndexError
            | a # as \<Rightarrow> map_sum id ((@) a) (py_format rest as))
         else Inl FormatError)
      else if c = CHR ''}'' then
        (if d = CHR ''}'' then map_sum id ((#) CHR ''}'') (py_format rest args)
         else Inl ValueError)
      else map_sum id ((#) c) (py_format (d # rest) args))"

section \<open>WGAN.train\<close>

text \<open>One pass of the inner loop body, lines 108 to 117; it returns the new \<^verbatim>\<open>d_loss\<close>.\<close>

definition critic_iteration ::
  "'k keras \<Rightarrow> 'g np_random \<Rightarrow> dataframe \<Rightarrow> ndarray \<Rightarrow> ndarray \<Rightarrow>
   ('g, 'k) state \<Rightarrow> (py_error + (real \<times> real)) \<times> ('g, 'k) state" where
  "critic_iteration fw rnd data valid fake s =
     and_then (call_get_data_batch rnd data (batch_size (self s)) 0) (\<lambda>batch_data.
     and_then (tf_random_normal fw (batch_size (self s)) (noise_dim (self s))) (\<lambda>noise.
     and_then (generator_call fw noise) (\<lambda>gen_data.
     and_then (critic_train_on_batch fw batch_data valid) (\<lambda>d_loss_real.
     and_then (critic_train_on_batch fw gen_data fake) (\<lambda>d_loss_fake.
     returns (0.5 * (fst d_loss_real + fst d_loss_fake),
              0.5 * (snd d_loss_real + snd d_loss_fake))))))) s"

text \<open>
  The loop \<^verbatim>\<open>for _ in range(self.n_critic)\<close>. The local variable \<^verbatim>\<open>d_loss\<close> is \<open>None\<close>
  while nothing has been assigned to it.
\<close>

fun critic_loop ::
  "'k keras \<Rightarrow> 'g np_random \<Rightarrow> dataframe \<Rightarrow> ndarray \<Rightarrow> ndarray \<Rightarrow> nat \<Rightarrow>
   (real \<times> real) option \<Rightarrow> ('g, 'k) state \<Rightarrow> (py_error + (real \<times> real) option) \<times> ('g, 'k) state" where
  "critic_loop fw rnd data valid fake 0 d_loss = returns d_loss"
| "critic_loop fw rnd data valid fake (Suc k) d_loss =
     and_then (critic_iteration fw rnd data valid fake) (\<lambda>d.
     critic_loop fw rnd data valid fake k (Some d))"

text \<open>Line 127: the report reads \<^verbatim>\<open>d_loss\<close>, which must have been assigned.\<close>

definition print_progress ::
  "int \<Rightarrow> (real \<times> real) option \<Rightarrow> real \<Rightarrow>
   ('g, 'k) state \<Rightarrow> (py_error + unit) \<times> ('g, 'k) state" where
  "print_progress epoch d_loss g_loss s =
     (case d_loss of
        None \<Rightarrow> (Inl UnboundLocalError, s)
      | Some d \<Rightarrow> (Inr (), s\<lparr>stdout := stdout s @ [(epoch, fst d, 100 * snd d, g_loss)]\<rparr>))"

text \<open>Lines 133 to 137: the checkpoint of one epoch.\<close>

definition save_checkpoint ::
  "string \<Rightarrow> int \<Rightarrow> ('g, 'k) state \<Rightarrow> (py_error + unit) \<times> ('g, 'k) state" where
  "save_checkpoint cache_prefix epoch =
     (let model_checkpoint_base_name =
            ''./cache/'' @ cache_prefix @ ''_{}_model_weights_step_{}.h5''
      in
      and_then (\<lambda>s. if os_path_exists ''./cache'' s then returns () s
                    else os_mkdir ''./cache'' s) (\<lambda>_.
      and_then (lift_result (py_format model_checkpoint_base_name
                               [''generator'', str_int epoch])) (\<lambda>gname.
      and_then (generator_save_weights ''./cache'' gname) (\<lambda>_.
      and_then (lift_result (py_format model_checkpoint_base_name
                               [''critic'', str_int epoch])) (\<lambda>cname.
      write_weights ''./cache'' cname)))))"

text \<open>The body of the epoch loop, lines 104 to 137; it returns \<^verbatim>\<open>d_loss\<close> for the next epoch.\<close>

definition train_epoch ::
  "'k keras \<Rightarrow> 'g np_random \<Rightarrow> dataframe \<Rightarrow> string \<Rightarrow> int \<Rightarrow> ndarray \<Rightarrow> ndarray \<Rightarrow> int \<Rightarrow>
   (real \<times> real) option \<Rightarrow> ('g, 'k) state \<Rightarrow> (py_error + (real \<times> real) option) \<times> ('g, 'k) state" where
  "train_epoch fw rnd data cache_prefix sample_interval valid fake epoch d_loss s =
     and_then (critic_loop fw rnd data valid fake (nat (n_critic (self s))) d_loss) (\<lambda>d_loss.
     and_then (tf_random_normal fw (batch_size (self s)) (noise_dim (self s))) (\<lambda>noise.
     and_then (model_train_on_batch fw noise valid) (\<lambda>g_loss.
     and_then (print_progress epoch d_loss g_loss) (\<lambda>_.
     and_then (if sample_interval = 0 then raises ZeroDivisionError
               else if epoch mod sample_interval = 0 then save_checkpoint cache_prefix epoch
               else returns ()) (\<lambda>_.
     returns d_loss))))) s"

fun epoch_loop ::
  "'k keras \<Rightarrow> 'g np_random \<Rightarrow> dataframe \<Rightarrow> string \<Rightarrow> int \<Rightarrow> ndarray \<Rightarrow> ndarray \<Rightarrow> int list \<Rightarrow>
   (real \<times> real) option \<Rightarrow> ('g, 'k) state \<Rightarrow> (py_error + unit) \<times> ('g, 'k) state" where
  "epoch_loop fw rnd data cache_prefix sample_interval valid fake [] d_loss = returns ()"
| "epoch_loop fw rnd data cache_prefix sample_interval valid fake (epoch # epochs) d_loss =
     and_then (train_epoch fw rnd data cache_prefix sample_interval valid fake epoch d_loss)
       (\<lambda>d. epoch_loop fw rnd data cache_prefix sample_interval valid fake epochs d)"

text \<open>
  \<^verbatim>\<open>train_arguments\<close> is unpacked into exactly three names, so it is a triple.
  \<^verbatim>\<open>range(epochs)\<close> is empty for a non-positive number of epochs.
\<close>

definition train ::
  "'k keras \<Rightarrow> 'g np_random \<Rightarrow> dataframe \<Rightarrow> string \<times> int \<times> int \<Rightarrow>
   ('g, 'k) state \<Rightarrow> (py_error + unit) \<times> ('g, 'k) state" where
  "train fw rnd data train_arguments s =
     (case train_arguments of (cache_prefix, epochs, sample_interval) \<Rightarrow>
      and_then (lift_result (np_ones (batch_size (self s)) 1)) (\<lambda>ones1.
      and_then (lift_result (np_ones (batch_size (self s)) 1)) (\<lambda>ones2.
      epoch_loop fw rnd data cache_prefix sample_interval (np_negative ones1) ones2
        (map int [0..<nat epochs]) None)) s)"

section \<open>WGAN.load\<close>

definition load ::
  "'k keras \<Rightarrow> string \<Rightarrow> ('g, 'k) state \<Rightarrow> (py_error + pyobj) \<times> ('g, 'k) state" where
  "load fw path s =
     (if \<not> os_path_isdir path s then (Inl AssertionError, s)
      else
        let s1 = s\<lparr>self := (self s)\<lparr>generator := GeneratorShell (batch_size (self s))\<rparr>\<rparr> in
        case load_weights fw (generator (self s1)) path of
          Inl e \<Rightarrow> (Inl e, s1)
        | Inr r \<Rightarrow> (Inr r, s1\<lparr>self := (self s1)\<lparr>generator := r\<rparr>\<rparr>))"

section \<open>Facts about the sampler\<close>

lemma mset_rotate_eq: "mset (rotate n xs) = mset xs"
proof -
  define k where "k = n mod length xs"
  have "mset xs = mset (take k xs @ drop k xs)"
    by (simp only: append_take_drop_id)
  also have "\<dots> = mset (drop k xs @ take k xs)"
    by (simp only: mset_append add.commute)
  also have "\<dots> = mset (rotate n xs)"
    by (simp only: rotate_drop_take k_def)
  finally show ?thesis by simp
qed

lemma draws_permutations_rot_random: "draws_permutations rot_random"
  unfolding draws_permutations_def rot_random_def
  by (simp add: mset_rotate_eq del: rotate_Suc)

lemma py_slice_nonneg:
  "0 \<le> a \<Longrightarrow> 0 \<le> b \<Longrightarrow> a + b \<le> int (length xs) \<Longrightarrow>
   py_slice xs a (a + b) = take (nat b) (drop (nat a) xs)"
  by (simp add: py_slice_def Let_def min_def)

lemma get_data_batch_ignores_state:
  "get_data_batch rnd g1 df b s = get_data_batch rnd g2 df b s"
  by (simp add: get_data_batch_def train_ix_slice_def np_random_seed_def Let_def)

lemma loc_label_distinct:
  "distinct ks \<Longrightarrow> length rs = length ks \<Longrightarrow> l \<in> set ks \<Longrightarrow>
   \<exists>r. map snd (filter (\<lambda>kr. fst kr = l) (zip ks rs)) = [r]"
proof (induction ks arbitrary: rs)
  case Nil
  then show ?case by simp
next
  case (Cons k ks)
  then obtain r rs' where rs: "rs = r # rs'" by (cases rs) auto
  show ?case
  proof (cases "k = l")
    case True
    with Cons.prems have "l \<notin> set ks" by simp
    then have "filter (\<lambda>kr. fst kr = l) (zip ks rs') = []"
      by (auto simp: filter_empty_conv dest: set_zip_leftD)
    with True rs show ?thesis by simp
  next
    case False
    with Cons rs show ?thesis by auto
  qed
qed

lemma loc_total:
  assumes "distinct (df_index df)" "length (df_rows df) = length (df_index df)"
  shows "set ls \<subseteq> set (df_index df) \<Longrightarrow> \<exists>rs. loc df ls = Inr rs \<and> length rs = length ls"
proof (induction ls)
  case Nil
  then show ?case by simp
next
  case (Cons l ls)
  then obtain rs where rs: "loc df ls = Inr rs" "length rs = length ls" by auto
  from Cons.prems assms obtain r where "loc_label df l = [r]"
    unfolding loc_label_def using loc_label_distinct by fastforce
  with rs show ?case by simp
qed

lemma loc_rows_length:
  "list_all (\<lambda>r. length r = c) (df_rows df) \<Longrightarrow> loc df ls = Inr rs \<Longrightarrow> list_all (\<lambda>r. length r = c) rs"
proof (induction ls arbitrary: rs)
  case Nil
  then show ?case by simp
next
  case (Cons l ls)
  have "list_all (\<lambda>r. length r = c) (loc_label df l)"
    using Cons.prems(1) unfolding loc_label_def list_all_iff
    by (auto dest: set_zip_rightD)
  with Cons show ?case
    by (auto split: list.splits sum.splits)
qed

lemma choice_perm:
  assumes "draws_permutations rnd" "choice rnd g a = (p, g')"
  shows "length p = length a" "set p = set a"
proof -
  have "mset (fst (choice rnd g a)) = mset a"
    using assms(1) unfolding draws_permutations_def by blast
  then have m: "mset p = mset a"
    by (simp add: assms(2))
  show "length p = length a" using m by (rule mset_eq_length)
  show "set p = set a" using m by (rule mset_eq_setD)
qed

lemma train_ix_slice_window:
  assumes n: "df_index df \<noteq> []"
    and b: "0 \<le> b" "0 \<le> s"
    and small: "(b * s) div int (length (df_index df)) < 2 ^ 32"
    and fit: "(b * s) mod int (length (df_index df)) + b \<le> 2 * int (length (df_index df))"
    and ch: "choice rnd (seed_state rnd (nat ((b * s) div int (length (df_index df))))) (df_index df) = (p, g')"
    and len: "length p = length (df_index df)"
  shows "train_ix_slice rnd g df b s =
     Inr (take (nat b) (drop (nat ((b * s) mod int (length (df_index df)))) (p @ p)), g')"
proof -
  let ?n = "int (length (df_index df))"
  have npos: "0 < ?n" using n by simp
  have d0: "0 \<le> (b * s) div ?n" using b npos by (simp add: pos_imp_zdiv_nonneg_iff)
  have m0: "0 \<le> (b * s) mod ?n" using npos by simp
  have sl: "py_slice (p @ p) ((b * s) mod ?n) ((b * s) mod ?n + b) =
      take (nat b) (drop (nat ((b * s) mod ?n)) (p @ p))"
    by (rule py_slice_nonneg) (use m0 b fit len in auto)
  show ?thesis
    using n d0 small ch sl
    by (simp add: train_ix_slice_def np_random_seed_def Let_def)
qed

lemma get_data_batch_shape_aux:
  assumes wf: "wf_dataframe df" and di: "distinct (df_index df)"
    and perm: "draws_permutations rnd"
    and n: "df_index df \<noteq> []"
    and b: "0 < b" and s: "0 \<le> s"
    and small: "(b * s) div int (length (df_index df)) < 2 ^ 32"
    and fit: "(b * s) mod int (length (df_index df)) + b \<le> 2 * int (length (df_index df))"
  shows "\<exists>x g'. get_data_batch rnd g df b s = Inr (x, g') \<and>
           shape x = (nat b, df_columns df)"
proof -
  let ?n = "int (length (df_index df))"
  let ?g1 = "seed_state rnd (nat ((b * s) div ?n))"
  obtain p g' where ch: "choice rnd ?g1 (df_index df) = (p, g')"
    by (cases "choice rnd ?g1 (df_index df)")
  note pp = choice_perm [OF perm ch]
  define m where "m = nat ((b * s) mod ?n)"
  define ixs where "ixs = take (nat b) (drop m (p @ p))"
  have b0: "0 \<le> b" using b by simp
  have sl: "train_ix_slice rnd g df b s = Inr (ixs, g')"
    unfolding ixs_def m_def
    by (rule train_ix_slice_window [OF n b0 s small fit ch pp(1)])
  have m0: "0 \<le> (b * s) mod ?n" using n by simp
  have mfit: "m + nat b \<le> length (p @ p)"
  proof -
    have "int m = (b * s) mod ?n" using m0 by (simp only: m_def nat_0_le)
    moreover have "int (nat b) = b" using b0 by simp
    moreover have "int (length (p @ p)) = 2 * ?n" using pp(1) by simp
    ultimately have "int (m + nat b) \<le> int (length (p @ p))"
      using fit by (simp only: of_nat_add)
    then show ?thesis by (simp only: of_nat_le_iff)
  qed
  have len: "length ixs = nat b"
    unfolding ixs_def using mfit by simp
  have sub: "set ixs \<subseteq> set (df_index df)"
  proof -
    have "set ixs \<subseteq> set (drop m (p @ p))"
      unfolding ixs_def by (rule set_take_subset)
    also have "\<dots> \<subseteq> set (p @ p)"
      by (rule set_drop_subset)
    finally have "set ixs \<subseteq> set (p @ p)" .
    then show ?thesis using pp(2) by simp
  qed
  from wf have l2: "length (df_rows df) = length (df_index df)"
    by (simp add: wf_dataframe_def)
  from loc_total [OF di l2 sub] obtain rs where
    rs: "loc df ixs = Inr rs" "length rs = length ixs" by blast
  have lrs: "length rs = nat b" using rs(2) len by simp
  have bpos: "0 < nat b" using b by simp
  have "np_reshape (df_values df rs) b =
        Inr \<lparr>shape = (nat b, df_columns df), elems = concat rs\<rparr>"
    using b bpos by (simp add: np_reshape_def df_values_def Let_def lrs)
  with sl rs(1) show ?thesis
    by (simp add: get_data_batch_def)
qed

lemma ceil_window:
  fixes k n b :: nat
  assumes "k < n" "0 < b"
  shows "k div b < (n + b - 1) div b"
proof -
  have "n \<le> b * ((n + b - 1) div b)"
  proof -
    have "n + b - 1 = b * ((n + b - 1) div b) + (n + b - 1) mod b" by simp
    moreover have "(n + b - 1) mod b < b" using assms(2) by simp
    ultimately have "n + b - 1 < b * ((n + b - 1) div b) + b" by linarith
    then show ?thesis using assms by linarith
  qed
  with assms have "k < b * ((n + b - 1) div b)" by linarith
  then show ?thesis
    using assms(2) by (simp add: div_less_iff_less_mult mult.commute)
qed

lemma nth_in_window:
  assumes "a \<le> k" "k < a + w" "k < length xs"
  shows "xs ! k \<in> set (take w (drop a xs))"
proof -
  have "k - a < length (take w (drop a xs))" using assms by auto
  moreover have "take w (drop a xs) ! (k - a) = xs ! k" using assms by auto
  ultimately show ?thesis by (auto simp: in_set_conv_nth)
qed

lemma sampler_covers_aux:
  assumes perm: "draws_permutations rnd"
    and b: "0 < b" "b \<le> int (length (df_index df))"
    and l: "l \<in> set (df_index df)"
  shows "\<exists>s < nat ((int (length (df_index df)) + b - 1) div b).
           \<exists>ixs g'. train_ix_slice rnd g df b (int s) = Inr (ixs, g') \<and> l \<in> set ixs"
proof -
  let ?n = "length (df_index df)"
  let ?b = "nat b"
  obtain p g' where ch: "choice rnd (seed_state rnd 0) (df_index df) = (p, g')"
    by (cases "choice rnd (seed_state rnd 0) (df_index df)")
  note pp = choice_perm [OF perm ch]
  from l pp(2) have "l \<in> set p" by simp
  then obtain k where k: "k < length p" "p ! k = l"
    by (auto simp: in_set_conv_nth)
  have kn: "k < ?n" using k(1) pp(1) by simp
  have bpos: "0 < ?b" using b by simp
  define s where "s = k div ?b"
  have lo: "?b * s \<le> k" unfolding s_def by simp
  have hi: "k < ?b * s + ?b"
  proof -
    have "k = ?b * (k div ?b) + k mod ?b" by simp
    moreover have "k mod ?b < ?b" using bpos by simp
    ultimately show ?thesis unfolding s_def by linarith
  qed
  have bs_int: "b * int s = int (?b * s)" using b by simp
  have lt: "?b * s < ?n" using lo kn by linarith
  define m where "m = ?b * s"
  have bm: "b * int s = int m" using bs_int by (simp only: m_def)
  have mlt: "m < ?n" using lt by (simp only: m_def)
  have md': "int m mod int ?n = int m" using mlt by simp
  have dv': "int m div int ?n = 0" using mlt by simp
  have md: "(b * int s) mod int ?n = int (?b * s)"
    using md' by (simp only: bm m_def)
  have dv: "(b * int s) div int ?n = 0"
    using dv' by (simp only: bm)
  have ne: "df_index df \<noteq> []" using l by auto
  have sl: "train_ix_slice rnd g df b (int s) =
      Inr (take (nat b) (drop (nat ((b * int s) mod int ?n)) (p @ p)), g')"
  proof (rule train_ix_slice_window [OF ne])
    show "0 \<le> b" using b by simp
    show "0 \<le> int s" by simp
    show "(b * int s) div int ?n < 2 ^ 32" by (simp add: dv)
    show "(b * int s) mod int ?n + b \<le> 2 * int ?n"
      using md lt b by linarith
    show "choice rnd (seed_state rnd (nat ((b * int s) div int ?n))) (df_index df) = (p, g')"
      using ch by (simp add: dv)
    show "length p = ?n" by (rule pp(1))
  qed
  let ?w = "take ?b (drop (?b * s) (p @ p))"
  have w: "take (nat b) (drop (nat ((b * int s) mod int ?n)) (p @ p)) = ?w"
    by (simp only: md nat_int)
  have "(p @ p) ! k \<in> set ?w"
    by (rule nth_in_window [OF lo hi]) (use k(1) in simp)
  moreover have "(p @ p) ! k = l" using k by (simp add: nth_append)
  ultimately have lw: "l \<in> set ?w" by simp
  have sbound: "s < nat ((int ?n + b - 1) div b)"
  proof -
    have "k div ?b < (?n + ?b - 1) div ?b" by (rule ceil_window [OF kn bpos])
    moreover have "nat ((int ?n + b - 1) div b) = (?n + ?b - 1) div ?b"
    proof -
      have e1: "int ?n + b - 1 = int (?n + ?b - 1)" using b by simp
      have e2: "int ?b = b" using b by simp
      have "(int ?n + b - 1) div b = int (?n + ?b - 1) div int ?b"
        by (simp only: e1 e2)
      also have "\<dots> = int ((?n + ?b - 1) div ?b)"
        by (simp only: zdiv_int)
      finally show ?thesis by simp
    qed
    ultimately show ?thesis by (simp add: s_def)
  qed
  have "train_ix_slice rnd g df b (int s) = Inr (?w, g')"
    using sl by (simp only: w)
  with lw have "\<exists>ixs g'. train_ix_slice rnd g df b (int s) = Inr (ixs, g') \<and> l \<in> set ixs"
    by blast
  with sbound show ?thesis by blast
qed


text \<open>
  Claim C7. Two calls of the sampler with the same dataset, batch size and step seed
  return the same matrix whatever state the process-wide generator was in before the
  call, because the call re-seeds the generator with the shuffle seed before it draws;
  the generator is also left in the same state.
\<close>

theorem C7_get_data_batch_deterministic:
  "get_data_batch rnd g1 df bsz sd = get_data_batch rnd g2 df bsz sd"
  by (simp add: get_data_batch_def train_ix_slice_def np_random_seed_def Let_def)

text \<open>
  Claim C2, as stated, at a dataset of one row and three columns with batch size 3 and
  step seed 0: the duplicated index list has two entries, the slice selects two labels,
  and the reshape of the 2 by 3 values gives a matrix of shape (3, 2), not (3, 3).
\<close>

theorem C2_shape_counterexample:
  "get_data_batch rot_random 0 one_row_frame 3 0 =
     Inr (\<lparr>shape = (3, 2), elems = [7, 8, 9, 7, 8, 9]\<rparr>, 1)"
  by (simp add: get_data_batch_def train_ix_slice_def np_random_seed_def rot_random_def
      one_row_frame_def py_slice_def loc_label_def df_values_def np_reshape_def Let_def)

text \<open>
  Claim C2, amended. For a dataset with at least one row and unique index labels, a
  positive batch size and a non-negative step seed whose shuffle seed is below 2**32,
  the sampler returns a matrix of shape exactly (batch_size, data_dim) whenever the
  window fits the duplicated index list, that is start_i + batch_size is at most twice
  the number of rows; this holds in particular whenever batch_size is at most the
  number of rows, and for some batch sizes above it.
\<close>

theorem C2_get_data_batch_shape:
  assumes "wf_dataframe df" and "distinct (df_index df)"
    and "draws_permutations rnd"
    and "df_index df \<noteq> []"
    and "0 < bsz" and "0 \<le> sd"
    and "(bsz * sd) div int (length (df_index df)) < 2 ^ 32"
    and "(bsz * sd) mod int (length (df_index df)) + bsz
           \<le> 2 * int (length (df_index df))"
  shows "\<exists>x g'. get_data_batch rnd g df bsz sd = Inr (x, g') \<and>
           shape x = (nat bsz, df_columns df)"
  using assms by (rule get_data_batch_shape_aux)

theorem C2_get_data_batch_shape_witness:
  "wf_dataframe toy_frame \<and> distinct (df_index toy_frame) \<and> draws_permutations rot_random \<and>
   df_index toy_frame \<noteq> [] \<and> (0::int) < 4 \<and> (0::int) \<le> 1 \<and>
   (4 * 1) div int (length (df_index toy_frame)) < 2 ^ 32 \<and>
   (4 * 1) mod int (length (df_index toy_frame)) + 4 \<le> 2 * int (length (df_index toy_frame)) \<and>
   (\<exists>x g'. get_data_batch rot_random 7 toy_frame 4 1 = Inr (x, g') \<and>
      shape x = (nat 4, df_columns toy_frame))"
proof -
  have h1: "wf_dataframe toy_frame" by (simp add: wf_dataframe_def toy_frame_def)
  have h2: "distinct (df_index toy_frame)" by (simp add: toy_frame_def)
  have h3: "df_index toy_frame \<noteq> []" by (simp add: toy_frame_def)
  have h4: "(4 * 1) div int (length (df_index toy_frame)) < 2 ^ 32"
    by (simp add: toy_frame_def)
  have h5: "(4 * 1) mod int (length (df_index toy_frame)) + 4
      \<le> 2 * int (length (df_index toy_frame))"
    by (simp add: toy_frame_def)
  have "\<exists>x g'. get_data_batch rot_random 7 toy_frame 4 1 = Inr (x, g') \<and>
      shape x = (nat 4, df_columns toy_frame)"
    by (rule C2_get_data_batch_shape [OF h1 h2 draws_permutations_rot_random h3 _ _ h4 h5])
      simp_all
  with h1 h2 h3 h4 h5 draws_permutations_rot_random show ?thesis by simp
qed

text \<open>
  Claim C5. For a non-empty dataset and a positive batch size not above its number of
  rows, every index label of the dataset is among the labels the sampler selects at
  one of the step seeds 0 .. ceil(len(dataset) / batch_size) - 1.
\<close>

theorem C5_sampler_covers_dataset:
  assumes "draws_permutations rnd"
    and "0 < bsz" and "bsz \<le> int (length (df_index df))"
    and "l \<in> set (df_index df)"
  shows "\<exists>s < nat ((int (length (df_index df)) + bsz - 1) div bsz).
           \<exists>ixs g'. train_ix_slice rnd g df bsz (int s) = Inr (ixs, g') \<and>
                     l \<in> set ixs"
  using assms by (rule sampler_covers_aux)

theorem C5_sampler_covers_dataset_witness:
  "draws_permutations rot_random \<and> (0::int) < 2 \<and> 2 \<le> int (length (df_index toy_frame)) \<and>
   12 \<in> set (df_index toy_frame) \<and>
   (\<exists>s < nat ((int (length (df_index toy_frame)) + 2 - 1) div 2).
      \<exists>ixs g'. train_ix_slice rot_random 7 toy_frame 2 (int s) = Inr (ixs, g') \<and> 12 \<in> set ixs)"
proof -
  have h2: "2 \<le> int (length (df_index toy_frame))" by (simp add: toy_frame_def)
  have h3: "12 \<in> set (df_index toy_frame)" by (simp add: toy_frame_def)
  have "\<exists>s < nat ((int (length (df_index toy_frame)) + 2 - 1) div 2).
      \<exists>ixs g'. train_ix_slice rot_random 7 toy_frame 2 (int s) = Inr (ixs, g') \<and> 12 \<in> set ixs"
    by (rule C5_sampler_covers_dataset [OF draws_permutations_rot_random _ h2 h3]) simp
  with h2 h3 draws_permutations_rot_random show ?thesis by simp
qed

section \<open>Facts about the Wasserstein loss\<close>

lemma map2_replicate_left:
  "map2 f (replicate (length p) c) p = map (f c) p"
  by (induction p) simp_all

lemma sum_list_scale: "sum_list (map ((*) c) p) = c * sum_list (p :: real list)"
  by (induction p) (simp_all add: algebra_simps)

lemma wasserstein_loss_const_label:
  "wasserstein_loss (replicate (length p) c) p =
     Inr (map_option ((*) c) (K_mean p))"
  by (simp add: wasserstein_loss_def tensor_mul_def K_mean_def map2_replicate_left
      sum_list_scale)

text \<open>
  Claim C3. For label and prediction vectors of equal shape the loss is the mean of their
  elementwise product; consequently, for every prediction vector \<open>p\<close>, the loss against
  the all-(-1) labels is \<open>- mean p\<close> and the loss against the all-(+1) labels is
  \<open>mean p\<close> (for the empty vector each side is the NaN of an empty mean).
\<close>

theorem C3_wasserstein_loss:
  "(length y_true = length y_pred \<longrightarrow>
      wasserstein_loss y_true y_pred = Inr (K_mean (map2 (*) y_true y_pred))) \<and>
   wasserstein_loss (replicate (length p) (- 1)) p = Inr (map_option uminus (K_mean p)) \<and>
   wasserstein_loss (replicate (length p) 1) p = Inr (K_mean p)"
proof -
  have "map_option ((*) (- 1)) (K_mean p) = map_option uminus (K_mean p)"
    by (cases "K_mean p") simp_all
  moreover have "map_option ((*) 1) (K_mean p) = K_mean p"
    by (cases "K_mean p") simp_all
  ultimately show ?thesis
    using wasserstein_loss_const_label [of p "- 1"] wasserstein_loss_const_label [of p 1]
    by (simp add: wasserstein_loss_def tensor_mul_def)
qed

theorem C3_wasserstein_loss_witness:
  "length [- 1, - 1 :: real] = length [2, 4 :: real] \<and>
   wasserstein_loss [- 1, - 1] [2, 4] = Inr (Some (- 3)) \<and>
   wasserstein_loss [- 1, - 1] [2, 4] = Inr (map_option uminus (K_mean [2, 4])) \<and>
   wasserstein_loss [1, 1] [2, 4] = Inr (Some 3)"
  using C3_wasserstein_loss [of "[- 1, - 1]" "[2, 4]" "[2, 4]"]
  by (simp add: K_mean_def)

end
